theory Spec2Isabelle
  imports Main
begin

section \<open>C integers and what the C standard leaves undefined\<close>

text \<open>
  An access outside an array and a division by zero have no defined result in C. The
  model makes each a value of its own, so that a function that can reach one returns
  \<open>Inl\<close> of it there and \<open>Inr\<close> of its result everywhere else.
\<close>

datatype fault = Out_of_bounds | Division_by_zero | Division_overflow

definition INT_MIN :: int where
  "INT_MIN = - (2 ^ 31)"

definition INT_MAX :: int where
  "INT_MAX = 2 ^ 31 - 1"

text \<open>
  The value a 32-bit two's-complement \<open>int\<close> holds after a conversion or an arithmetic
  operation whose exact result is \<open>x\<close>: the result modulo \<open>2^32\<close>, in
  \<open>INT_MIN .. INT_MAX\<close>.
\<close>

definition wrap32 :: "int \<Rightarrow> int" where
  "wrap32 x = (x + 2 ^ 31) mod 2 ^ 32 - 2 ^ 31"

text \<open>The range of \<open>long\<close>, 64 bits wide.\<close>

definition LONG_MIN :: int where
  "LONG_MIN = - (2 ^ 63)"

definition LONG_MAX :: int where
  "LONG_MAX = 2 ^ 63 - 1"

section \<open>C strings and the libc functions the handlers call\<close>

text \<open>
  An instruction argument is a sequence of bytes of explicit length. The handlers receive
  it as a \<open>const char*\<close>: the bytes, followed by the terminating NUL the parser stores
  after them. A C-string function therefore sees the bytes before the first NUL only.
\<close>

type_synonym byte = char

definition NUL :: byte where
  "NUL = CHR 0x00"

text \<open>\<open>strlen\<close>: the number of bytes before the first NUL.\<close>

definition strlen :: "byte list \<Rightarrow> nat" where
  "strlen s = length (takeWhile (\<lambda>c. c \<noteq> NUL) s)"

definition isspace :: "byte \<Rightarrow> bool" where
  "isspace c = (c \<in> set [CHR '' '', CHR 0x09, CHR 0x0A, CHR 0x0B, CHR 0x0C, CHR 0x0D])"

definition isdigit :: "byte \<Rightarrow> bool" where
  "isdigit c = (48 \<le> (of_char c :: nat) \<and> (of_char c :: nat) \<le> 57)"

definition digit_value :: "byte \<Rightarrow> int" where
  "digit_value c = int (of_char c) - 48"

text \<open>
  \<open>strtol(s, NULL, 10)\<close>: leading white space is skipped, an optional sign is read,
  and the longest run of decimal digits that follows is the value (0 when there is
  none). A value outside the range of \<open>long\<close> is replaced by \<open>LONG_MIN\<close> or
  \<open>LONG_MAX\<close>.
\<close>

definition strtol :: "byte list \<Rightarrow> int" where
  "strtol s =
     (let t = dropWhile isspace s;
          (neg, u) = (case t of
                        c # r \<Rightarrow> if c = CHR ''-'' then (True, r)
                                 else if c = CHR ''+'' then (False, r)
                                 else (False, t)
                      | [] \<Rightarrow> (False, t));
          v = foldl (\<lambda>acc c. acc * 10 + digit_value c) 0 (takeWhile isdigit u);
          r = (if neg then - v else v)
      in if r < LONG_MIN then LONG_MIN else if r > LONG_MAX then LONG_MAX else r)"

text \<open>
  \<open>atoi\<close> is \<open>(int) strtol(s, NULL, 10)\<close>: the conversion of the \<open>long\<close> to
  \<open>int\<close> keeps its low 32 bits. So \<open>2147483648\<close> is read as \<open>-2147483648\<close>, and
  a digit string beyond the range of \<open>long\<close> as \<open>-1\<close>.
\<close>

definition atoi :: "byte list \<Rightarrow> int" where
  "atoi s = wrap32 (strtol s)"

text \<open>The decimal digits of a natural number, as \<open>printf\<close> prints them.\<close>

fun show_nat :: "nat \<Rightarrow> string" where
  "show_nat n =
     (if n < 10 then [char_of (48 + n)]
      else show_nat (n div 10) @ [char_of (48 + n mod 10)])"

declare show_nat.simps [simp del]

text \<open>The conversion \<open>%i\<close>.\<close>

definition show_int :: "int \<Rightarrow> string" where
  "show_int i = (if i < 0 then CHR ''-'' # show_nat (nat (- i)) else show_nat (nat i))"

section \<open>guacenc: the handler of the blob instruction\<close>

datatype guac_client_log_level =
  GUAC_LOG_ERROR | GUAC_LOG_WARNING | GUAC_LOG_INFO | GUAC_LOG_DEBUG

type_synonym log_line = "guac_client_log_level \<times> string"

text \<open>
  Modelled from the spec: the Stream Buffer Table, which no source file declares.
  A stream index is mapped to the bytes accumulated so far while the stream is open,
  and to nothing when it was never opened or has been closed.
\<close>

record guacenc_state =
  streams :: "int \<rightharpoonup> byte list"

text \<open>
  \<open>guacenc_handle_blob(argc, argv)\<close>. The argument vector is the list \<open>argv\<close> and
  \<open>argc\<close> is its length, as the parser passes them. The C function has no parameter
  through which it could reach the state of the replay and names no global: the state it
  is called in is returned as it was. The result is the returned \<open>int\<close>, the lines given
  to \<open>guacenc_log\<close>, and the state. The length \<open>strlen\<close> returns is printed by
  \<open>%i\<close>, which reads an \<open>int\<close>: its low 32 bits.
\<close>

definition guacenc_handle_blob ::
  "guacenc_state \<Rightarrow> byte list list \<Rightarrow> int \<times> log_line list \<times> guacenc_state" where
  "guacenc_handle_blob st argv =
     (let argc = int (length argv) in
      if argc < 2 then
        (1, [(GUAC_LOG_DEBUG, ''\"blob\" instruction incomplete'')], st)
      else
        let index = atoi (argv ! 0);
            data = argv ! 1
        in (0,
            [(GUAC_LOG_DEBUG,
              ''blob: stream='' @ show_int index @
              '' data=['' @ show_int (wrap32 (int (strlen data))) @ '' chars]'')],
            st))"

section \<open>The terminal typescript\<close>

text \<open>
  \<open>struct guac_terminal_typescript\<close>. The array \<open>buffer\<close> is a list whose length
  is \<open>sizeof(buffer)\<close>; \<open>length_ts\<close> is the field \<open>length\<close>, an \<open>int\<close>. The
  two file descriptors are modelled by what has been written to each file so far; both
  files are new and distinct when they are opened (\<open>O_CREAT | O_EXCL\<close>), and every
  \<open>guac_common_write\<close> is taken to write all the bytes it is given.
  \<open>guac_timestamp\<close> is a count of milliseconds.
\<close>

record guac_terminal_typescript =
  buffer :: "byte list"
  length_ts :: int
  data_fd :: "byte list"
  timing_fd :: "byte list"
  last_flush :: int

definition sizeof_buffer :: "guac_terminal_typescript \<Rightarrow> int" where
  "sizeof_buffer ts = int (length (buffer ts))"

text \<open>
  The conversion \<open>%0.6f\<close> of \<open>elapsed_time / 1000.0\<close>, for an \<open>int\<close> number of
  milliseconds: the quotient has three decimals, so the six printed are those three
  and three zeros.
\<close>

definition show_seconds :: "int \<Rightarrow> string" where
  "show_seconds ms =
     (let n = nat \<bar>ms\<bar> in
      (if ms < 0 then ''-'' else []) @ show_nat (n div 1000) @ ''.'' @
      [char_of (48 + n div 100 mod 10), char_of (48 + n div 10 mod 10), char_of (48 + n mod 10)] @
      ''000'')"

text \<open>
  What \<open>snprintf(timestamp_buffer, 32, ...)\<close> followed by the clamp of
  \<open>timestamp_length\<close> to 32 hands to \<open>guac_common_write\<close>: the whole line when it is
  shorter than the buffer, otherwise its first 31 bytes and the terminating NUL.
\<close>

definition timestamp_line :: "string \<Rightarrow> byte list" where
  "timestamp_line line = (if length line < 32 then line else take 31 line @ [NUL])"

text \<open>
  \<open>guac_terminal_typescript_flush\<close>. \<open>MAX_DELAY\<close> is
  \<open>GUAC_TERMINAL_TYPESCRIPT_MAX_DELAY\<close>, whose header is not among the sources, and
  \<open>now\<close> is what \<open>guac_timestamp_current()\<close> returns when it is called. Writing
  \<open>length\<close> bytes of a shorter buffer would read past the array.
\<close>

definition guac_terminal_typescript_flush ::
  "int \<Rightarrow> int \<Rightarrow> guac_terminal_typescript \<Rightarrow> fault + guac_terminal_typescript" where
  "guac_terminal_typescript_flush MAX_DELAY now ts =
     (if length_ts ts = 0 then Inr ts
      else
        let this_flush = now;
            last_flush = last_flush ts;
            elapsed_time = wrap32 (this_flush - last_flush);
            elapsed_time = (if elapsed_time > MAX_DELAY then MAX_DELAY else elapsed_time);
            line = show_seconds elapsed_time @ '' '' @ show_int (length_ts ts) @ [CHR 0x0A]
        in if length_ts ts > sizeof_buffer ts then Inl Out_of_bounds
           else Inr (ts\<lparr>timing_fd := timing_fd ts @ timestamp_line line,
                        data_fd := data_fd ts @ take (nat (length_ts ts)) (buffer ts),
                        length_ts := 0,
                        last_flush := this_flush\<rparr>))"

text \<open>
  \<open>guac_terminal_typescript_write\<close>: the flush when no space is left, then
  \<open>buffer[length++] = c\<close>, which is defined for an index inside the array only.
\<close>

definition guac_terminal_typescript_write ::
  "int \<Rightarrow> int \<Rightarrow> guac_terminal_typescript \<Rightarrow> byte \<Rightarrow> fault + guac_terminal_typescript" where
  "guac_terminal_typescript_write MAX_DELAY now ts c =
     (case (if length_ts ts = sizeof_buffer ts
            then guac_terminal_typescript_flush MAX_DELAY now ts
            else Inr ts) of
        Inl f \<Rightarrow> Inl f
      | Inr t \<Rightarrow>
          if 0 \<le> length_ts t \<and> length_ts t < sizeof_buffer t
          then Inr (t\<lparr>buffer := (buffer t)[nat (length_ts t) := c],
                      length_ts := length_ts t + 1\<rparr>)
          else Inl Out_of_bounds)"

text \<open>
  \<open>guac_terminal_typescript_alloc\<close>, from the point where the directory exists: the
  answers of the two \<open>open\<close> calls are \<open>data_opened\<close> and \<open>timing_opened\<close>,
  \<open>None\<close> is the NULL returned when either fails, \<open>buffer0\<close> is what \<open>malloc\<close>
  left in the array, and \<open>HEADER\<close> is \<open>GUAC_TERMINAL_TYPESCRIPT_HEADER\<close>.
\<close>

definition guac_terminal_typescript_alloc ::
  "bool \<Rightarrow> bool \<Rightarrow> byte list \<Rightarrow> string \<Rightarrow> int \<Rightarrow> guac_terminal_typescript option" where
  "guac_terminal_typescript_alloc data_opened timing_opened buffer0 HEADER now =
     (if \<not> data_opened then None
      else if \<not> timing_opened then None
      else Some \<lparr>buffer = buffer0, length_ts = 0, data_fd = HEADER, timing_fd = [],
                 last_flush = now\<rparr>)"

text \<open>
  \<open>guac_terminal_typescript_free\<close>: nothing for NULL; otherwise the pending data is
  flushed and the footer written. The result is the final content of the data file and
  of the timing file.
\<close>

definition guac_terminal_typescript_free ::
  "int \<Rightarrow> string \<Rightarrow> int \<Rightarrow> guac_terminal_typescript option \<Rightarrow>
   fault + (byte list \<times> byte list) option" where
  "guac_terminal_typescript_free MAX_DELAY FOOTER now typescript =
     (case typescript of
        None \<Rightarrow> Inr None
      | Some ts \<Rightarrow>
          (case guac_terminal_typescript_flush MAX_DELAY now ts of
             Inl f \<Rightarrow> Inl f
           | Inr t \<Rightarrow> Inr (Some (data_fd t @ FOOTER, timing_fd t))))"

text \<open>The invariant of the buffer: \<open>0 \<le> length \<le> sizeof(buffer)\<close>.\<close>

definition typescript_inv :: "guac_terminal_typescript \<Rightarrow> bool" where
  "typescript_inv ts = (0 \<le> length_ts ts \<and> length_ts ts \<le> sizeof_buffer ts)"

section \<open>The RDP display update module\<close>

text \<open>
  The arithmetic of \<open>int\<close> on the machine: a product that leaves the range of \<open>int\<close>
  wraps around (the C standard leaves it undefined), a quotient is truncated towards
  zero, and the division instruction traps on a zero divisor and on \<open>INT_MIN / -1\<close>.
\<close>

definition c_mul :: "int \<Rightarrow> int \<Rightarrow> int" where
  "c_mul a b = wrap32 (a * b)"

definition c_div :: "int \<Rightarrow> int \<Rightarrow> fault + int" where
  "c_div a b =
     (if b = 0 then Inl Division_by_zero
      else if a = INT_MIN \<and> b = - 1 then Inl Division_overflow
      else Inr (sgn a * sgn b * (\<bar>a\<bar> div \<bar>b\<bar>)))"

text \<open>The remainder \<open>a % b\<close> for a divisor other than 0 and -1: it has the sign of \<open>a\<close>.\<close>

definition c_rem :: "int \<Rightarrow> int \<Rightarrow> int" where
  "c_rem a b = a - b * (sgn a * sgn b * (\<bar>a\<bar> div \<bar>b\<bar>))"

text \<open>
  The constants of \<open>rdp_disp.h\<close>, which is not among the sources:
  \<open>GUAC_RDP_DISP_MIN_SIZE\<close>, \<open>GUAC_RDP_DISP_MAX_SIZE\<close> and
  \<open>GUAC_RDP_DISP_UPDATE_INTERVAL\<close>. Every function below takes them as a parameter.
\<close>

record rdp_disp_h =
  MIN_SIZE :: int
  MAX_SIZE :: int
  UPDATE_INTERVAL :: int

text \<open>
  \<open>struct guac_rdp_disp\<close>. The field \<open>disp\<close> is the pointer to the display channel:
  \<open>False\<close> for NULL, \<open>True\<close> once \<open>guac_rdp_disp_connect\<close> has stored one.
\<close>

record guac_rdp_disp =
  disp :: bool
  last_request :: int
  requested_width :: int
  requested_height :: int

definition guac_rdp_disp_alloc :: guac_rdp_disp where
  "guac_rdp_disp_alloc =
     \<lparr>disp = False, last_request = 0, requested_width = 0, requested_height = 0\<rparr>"

definition guac_rdp_disp_connect :: "guac_rdp_disp \<Rightarrow> guac_rdp_disp" where
  "guac_rdp_disp_connect guac_disp = guac_disp\<lparr>disp := True\<rparr>"

text \<open>
  \<open>guac_rdp_disp_fit(&a, &b)\<close>, called with pointers to two distinct variables: the
  result is the pair of values they hold afterwards.
\<close>

definition guac_rdp_disp_fit :: "rdp_disp_h \<Rightarrow> int \<Rightarrow> int \<Rightarrow> fault + (int \<times> int)" where
  "guac_rdp_disp_fit h a b =
     (let a_value = a; b_value = b in
      if a_value < MIN_SIZE h then
        (case c_div (c_mul b_value (MIN_SIZE h)) a_value of
           Inl f \<Rightarrow> Inl f
         | Inr adjusted_b \<Rightarrow>
             Inr (MIN_SIZE h, if adjusted_b > MAX_SIZE h then MAX_SIZE h else adjusted_b))
      else if a_value > MAX_SIZE h then
        (case c_div (c_mul b_value (MAX_SIZE h)) a_value of
           Inl f \<Rightarrow> Inl f
         | Inr adjusted_b \<Rightarrow>
             Inr (MAX_SIZE h, if adjusted_b < MIN_SIZE h then MIN_SIZE h else adjusted_b))
      else Inr (a, b))"

text \<open>
  \<open>guac_rdp_disp_update_size\<close>. \<open>now\<close> is what \<open>guac_timestamp_current()\<close> returns,
  \<open>remote\<close> the width and height of the RDP instance. The second component of the
  result is the width and height of the monitor layout sent, if one is sent; the debug
  line logged with it is left out.
\<close>

definition guac_rdp_disp_update_size ::
  "rdp_disp_h \<Rightarrow> int \<Rightarrow> int \<times> int \<Rightarrow> guac_rdp_disp \<Rightarrow> guac_rdp_disp \<times> (int \<times> int) option" where
  "guac_rdp_disp_update_size h now remote d =
     (if \<not> disp d then (d, None)
      else
        let width = requested_width d;
            height = requested_height d
        in if last_request d \<noteq> 0 \<and> now - last_request d \<le> UPDATE_INTERVAL h then (d, None)
           else if width = fst remote \<and> height = snd remote then (d, None)
           else (d\<lparr>last_request := now\<rparr>, Some (width, height)))"

text \<open>
  \<open>guac_rdp_disp_set_size\<close>. The decrement of an odd width is applied to a width
  whose remainder is 1, a positive one, and cannot leave the range of \<open>int\<close>.
\<close>

definition guac_rdp_disp_set_size ::
  "rdp_disp_h \<Rightarrow> int \<Rightarrow> int \<times> int \<Rightarrow> guac_rdp_disp \<Rightarrow> int \<Rightarrow> int \<Rightarrow>
   fault + guac_rdp_disp \<times> (int \<times> int) option" where
  "guac_rdp_disp_set_size h now remote d width height =
     (case guac_rdp_disp_fit h width height of
        Inl f \<Rightarrow> Inl f
      | Inr (width, height) \<Rightarrow>
          (case guac_rdp_disp_fit h height width of
             Inl f \<Rightarrow> Inl f
           | Inr (height, width) \<Rightarrow>
               let width = (if c_rem width 2 = 1 then width - 1 else width)
               in Inr (guac_rdp_disp_update_size h now remote
                         (d\<lparr>requested_width := width, requested_height := height\<rparr>))))"

section \<open>The Frame Clock and the result of the encode operation\<close>

text \<open>
  Modelled from the spec: the state of the Frame Clock, as far as the ordering of
  timestamps needs it, namely the last observed protocol timestamp. The handler of the
  synchronization instruction and the loop that replays a dump are not among the sources.
\<close>

record frame_clock =
  last_timestamp :: "int option"

text \<open>Modelled from the spec: the one fatal error of the Frame Clock, the ordering error.\<close>

datatype replay_error = Ordering_error

text \<open>Modelled from the spec: the Frame Clock at the start, before any timestamp.\<close>

definition frame_clock_init :: frame_clock where
  "frame_clock_init = \<lparr>last_timestamp = None\<rparr>"

text \<open>
  Modelled from the spec: the handling of a synchronization instruction with timestamp
  \<open>T\<close>. A timestamp lower than the last observed one is an ordering error; any other
  becomes the last observed one.
\<close>

definition handle_sync :: "frame_clock \<Rightarrow> int \<Rightarrow> replay_error + frame_clock" where
  "handle_sync fc T =
     (case last_timestamp fc of
        None \<Rightarrow> Inr (fc\<lparr>last_timestamp := Some T\<rparr>)
      | Some L \<Rightarrow> if T < L then Inl Ordering_error else Inr (fc\<lparr>last_timestamp := Some T\<rparr>))"

text \<open>
  Modelled from the spec: the replay of a sequence of synchronization instructions, given
  by their timestamps. A fatal error halts it. The result is the error, if any, and the
  number of instructions processed before the replay ended.
\<close>

fun replay_sync :: "frame_clock \<Rightarrow> int list \<Rightarrow> replay_error option \<times> nat" where
  "replay_sync fc [] = (None, 0)"
| "replay_sync fc (T # ts) =
     (case handle_sync fc T of
        Inl e \<Rightarrow> (Some e, 0)
      | Inr fc' \<Rightarrow> (case replay_sync fc' ts of (r, n) \<Rightarrow> (r, Suc n)))"

text \<open>
  Modelled from the spec: the three kinds of failure the completion signal of the encode
  operation distinguishes: an error in the dump (parse or semantic), the output encoder
  that could not be initialised, the output that could not be written.
\<close>

datatype encode_failure = Dump_error | Encoder_init_error | Output_write_error

text \<open>
  Modelled from the spec: the fatal errors of the error taxonomy that end a replay at one
  instruction, the ordering error of the Frame Clock apart: a framing error of the
  parser, a semantic error of the dispatcher (too few arguments, an unrecognised
  compositing operator), a reference error, and an error of the encoder while writing.
\<close>

datatype fatal_error = Framing_error | Semantic_error | Reference_error | Encoder_write_error

text \<open>
  Modelled from the spec: the kind of failure reported for a fatal error. The errors that
  show a corrupt or inconsistent dump are errors in the dump.
\<close>

fun failure_kind :: "fatal_error \<Rightarrow> encode_failure" where
  "failure_kind Framing_error = Dump_error"
| "failure_kind Semantic_error = Dump_error"
| "failure_kind Reference_error = Dump_error"
| "failure_kind Encoder_write_error = Output_write_error"

text \<open>
  Modelled from the spec: what the next unit of the dump comes to when it is parsed and
  dispatched. An instruction is executed without error; or a recoverable condition (an
  unknown opcode, an unsupported payload subtype) is logged and the instruction skipped;
  or it is a synchronization instruction, with its timestamp and with whether the frames
  it makes due, if any, are all written to the output; or it is the disconnect
  instruction; or a fatal error occurs.
\<close>

datatype dump_step =
  Step_done | Step_skipped | Step_sync int bool | Step_disconnect | Step_failed fatal_error

text \<open>
  Modelled from the spec: the sequential replay of the dump, from a state of the Frame
  Clock. It ends successfully at the clean end of the dump and at a disconnect
  instruction, whatever input remains after it; it ends with the failure at the first
  fatal error. A synchronization instruction is checked by the Frame Clock before its
  frames are encoded.
\<close>

fun replay_steps :: "frame_clock \<Rightarrow> dump_step list \<Rightarrow> encode_failure option" where
  "replay_steps fc [] = None"
| "replay_steps fc (Step_done # steps) = replay_steps fc steps"
| "replay_steps fc (Step_skipped # steps) = replay_steps fc steps"
| "replay_steps fc (Step_sync T written # steps) =
     (case handle_sync fc T of
        Inl e \<Rightarrow> Some Dump_error
      | Inr fc' \<Rightarrow> if written then replay_steps fc' steps else Some Output_write_error)"
| "replay_steps fc (Step_disconnect # steps) = None"
| "replay_steps fc (Step_failed e # steps) = Some (failure_kind e)"

text \<open>
  Modelled from the spec: the result of the encode operation. The encoder is initialised
  first, and a failure there aborts before any instruction is processed.
\<close>

definition guacenc_encode_result :: "bool \<Rightarrow> dump_step list \<Rightarrow> encode_failure option" where
  "guacenc_encode_result encoder_initialised steps =
     (if \<not> encoder_initialised then Some Encoder_init_error
      else replay_steps frame_clock_init steps)"

text \<open>
  Modelled from the spec: the \<open>int\<close> that \<open>guacenc_encode\<close> returns, of which only
  the declaration in \<open>encode.h\<close> is among the sources: zero on success, non-zero if an
  error prevented successful encoding.
\<close>

definition guacenc_encode :: "bool \<Rightarrow> dump_step list \<Rightarrow> int" where
  "guacenc_encode encoder_initialised steps =
     (case guacenc_encode_result encoder_initialised steps of None \<Rightarrow> 0 | Some e \<Rightarrow> 1)"

text \<open>
  The part of a dump that a replay reaches when nothing fails, the instructions before
  the first disconnect, and the timestamps of the synchronization instructions of a
  sequence, in order.
\<close>

definition before_disconnect :: "dump_step list \<Rightarrow> dump_step list" where
  "before_disconnect steps = takeWhile (\<lambda>s. s \<noteq> Step_disconnect) steps"

fun sync_timestamps :: "dump_step list \<Rightarrow> int list" where
  "sync_timestamps [] = []"
| "sync_timestamps (Step_sync T written # steps) = T # sync_timestamps steps"
| "sync_timestamps (_ # steps) = sync_timestamps steps"

text \<open>A step that is no fatal error and no synchronization whose frames fail to be written.\<close>

fun step_ok :: "dump_step \<Rightarrow> bool" where
  "step_ok (Step_failed e) = False"
| "step_ok (Step_sync T written) = written"
| "step_ok _ = True"

section \<open>Properties of the blob handler\<close>

lemma takeWhile_takeWhile_imp:
  "(\<And>x. Q x \<Longrightarrow> P x) \<Longrightarrow> takeWhile Q (takeWhile P xs) = takeWhile Q xs"
  by (induction xs) auto

lemma dropWhile_takeWhile_imp:
  "(\<And>x. Q x \<Longrightarrow> P x) \<Longrightarrow> dropWhile Q (takeWhile P xs) = takeWhile P (dropWhile Q xs)"
  by (induction xs) auto

lemma isspace_not_NUL: "isspace c \<Longrightarrow> c \<noteq> NUL"
  by (auto simp: isspace_def NUL_def)

lemma isdigit_not_NUL: "isdigit c \<Longrightarrow> c \<noteq> NUL"
  by (auto simp: isdigit_def NUL_def)

lemma takeWhile_isdigit_NUL:
  "takeWhile isdigit (takeWhile (\<lambda>c. c \<noteq> NUL) u) = takeWhile isdigit u"
  by (rule takeWhile_takeWhile_imp) (rule isdigit_not_NUL)

text \<open>\<open>strtol\<close> and \<open>atoi\<close> read a C string: nothing after the first NUL reaches them.\<close>

lemma strtol_up_to_NUL: "strtol (takeWhile (\<lambda>c. c \<noteq> NUL) s) = strtol s"
proof -
  let ?P = "\<lambda>c. c \<noteq> NUL"
  have drop: "dropWhile isspace (takeWhile ?P s) = takeWhile ?P (dropWhile isspace s)"
    by (rule dropWhile_takeWhile_imp) (rule isspace_not_NUL)
  show ?thesis
  proof (cases "dropWhile isspace s")
    case Nil
    show ?thesis unfolding strtol_def drop Nil by simp
  next
    case (Cons c r)
    show ?thesis
    proof (cases "c = NUL")
      case True
      then have "\<not> isdigit c" "c \<noteq> CHR ''-''" "c \<noteq> CHR ''+''"
        by (auto simp: isdigit_def NUL_def)
      with True show ?thesis unfolding strtol_def drop Cons by simp
    next
      case False
      then show ?thesis unfolding strtol_def drop Cons
        by (simp add: takeWhile_isdigit_NUL Let_def)
    qed
  qed
qed

lemma atoi_up_to_NUL: "atoi (takeWhile (\<lambda>c. c \<noteq> NUL) s) = atoi s"
  by (simp add: atoi_def strtol_up_to_NUL)

lemma strlen_up_to_NUL: "strlen (takeWhile (\<lambda>c. c \<noteq> NUL) s) = strlen s"
  by (simp add: strlen_def)

lemma strlen_le_length: "strlen s \<le> length s"
  by (simp add: strlen_def length_takeWhile_le)

lemma wrap32_in_range: "0 \<le> x \<Longrightarrow> x \<le> INT_MAX \<Longrightarrow> wrap32 x = x"
  by (simp add: wrap32_def INT_MAX_def)

lemmas atoi_eval =
  atoi_def strtol_def isspace_def isdigit_def digit_value_def wrap32_def
  LONG_MIN_def LONG_MAX_def

text \<open>What \<open>atoi\<close> makes of a small index, and of digit strings beyond \<open>int\<close> and \<open>long\<close>.\<close>

lemma atoi_examples:
  "atoi ''0'' = 0" "atoi ''1'' = 1" "atoi ''7'' = 7" "atoi '' -12ab'' = - 12"
  "atoi ''2147483647'' = 2147483647"
  "atoi ''2147483648'' = - 2147483648"
  "atoi ''99999999999999999999'' = - 1"
  "atoi ''-99999999999999999999'' = 0"
  by (simp_all add: atoi_eval)

text \<open>
  C1, as amended. A blob instruction with at least 2 arguments returns zero, logs the
  stream index \<open>atoi(argv[0])\<close> and the C-string length of \<open>argv[1]\<close>, each as \<open>%i\<close>
  prints it, and leaves the replay state, the stream buffers included, as it was: the
  handler is a stub and appends nothing.
\<close>

theorem guacenc_handle_blob_stub:
  assumes "2 \<le> length argv"
  shows "guacenc_handle_blob st argv =
           (0,
            [(GUAC_LOG_DEBUG,
              ''blob: stream='' @ show_int (atoi (argv ! 0)) @
              '' data=['' @ show_int (wrap32 (int (strlen (argv ! 1)))) @ '' chars]'')],
            st)"
  using assms by (simp add: guacenc_handle_blob_def)

theorem guacenc_handle_blob_stub_witness:
  "2 \<le> length [''1'', ''abc''] \<and>
   guacenc_handle_blob \<lparr>streams = [1 \<mapsto> ''xy'']\<rparr> [''1'', ''abc''] =
     (0, [(GUAC_LOG_DEBUG, ''blob: stream=1 data=[3 chars]'')], \<lparr>streams = [1 \<mapsto> ''xy'']\<rparr>)"
proof -
  have b: "wrap32 (int (strlen ''abc'')) = 3"
    by (simp add: strlen_def NUL_def wrap32_def)
  have c: "show_int 1 = ''1''" "show_int 3 = ''3''"
    by code_simp+
  show ?thesis
    using guacenc_handle_blob_stub [of "[''1'', ''abc'']" "\<lparr>streams = [1 \<mapsto> ''xy'']\<rparr>"]
    by (simp add: atoi_examples b c)
qed

text \<open>
  C1, as stated, fails: stream 1 is open and holds \<open>xy\<close>; after the blob instruction
  with arguments \<open>1\<close> and \<open>abc\<close> it still holds \<open>xy\<close>, not \<open>xyabc\<close>.
\<close>

theorem guacenc_handle_blob_appends_counterexample:
  "fst (guacenc_handle_blob \<lparr>streams = [1 \<mapsto> ''xy'']\<rparr> [''1'', ''abc'']) = 0 \<and>
   atoi ''1'' = 1 \<and>
   streams (snd (snd (guacenc_handle_blob \<lparr>streams = [1 \<mapsto> ''xy'']\<rparr> [''1'', ''abc''])))
     1 = Some ''xy'' \<and>
   streams (snd (snd (guacenc_handle_blob \<lparr>streams = [1 \<mapsto> ''xy'']\<rparr> [''1'', ''abc''])))
     1 \<noteq> Some (''xy'' @ ''abc'')"
  by (simp add: guacenc_handle_blob_def atoi_examples)

text \<open>
  C2. A blob instruction with fewer than 2 arguments returns a non-zero value (1) and
  leaves the replay state as it was.
\<close>

theorem guacenc_handle_blob_incomplete:
  assumes "length argv < 2"
  shows "fst (guacenc_handle_blob st argv) = 1 \<and>
         fst (guacenc_handle_blob st argv) \<noteq> 0 \<and>
         snd (snd (guacenc_handle_blob st argv)) = st"
  using assms by (simp add: guacenc_handle_blob_def)

theorem guacenc_handle_blob_incomplete_witness:
  "length [''1''] < 2 \<and>
   fst (guacenc_handle_blob \<lparr>streams = [1 \<mapsto> ''xy'']\<rparr> [''1'']) = 1 \<and>
   snd (snd (guacenc_handle_blob \<lparr>streams = [1 \<mapsto> ''xy'']\<rparr> [''1''])) =
     \<lparr>streams = [1 \<mapsto> ''xy'']\<rparr>"
  using guacenc_handle_blob_incomplete [of "[''1'']" "\<lparr>streams = [1 \<mapsto> ''xy'']\<rparr>"]
  by simp

text \<open>
  C3, as amended. The handler makes no reference check. For a blob instruction whose
  stream index is not open (never opened, or closed), the result is zero as soon as the
  instruction has 2 arguments, non-zero only when it has fewer, and the index is still
  not open afterwards.
\<close>

theorem guacenc_handle_blob_unopened:
  assumes "1 \<le> length argv"
      and "streams st (atoi (argv ! 0)) = None"
  shows "(fst (guacenc_handle_blob st argv) = 0) = (2 \<le> length argv) \<and>
         streams (snd (snd (guacenc_handle_blob st argv))) (atoi (argv ! 0)) = None"
  using assms by (simp add: guacenc_handle_blob_def Let_def)

theorem guacenc_handle_blob_unopened_witness:
  "1 \<le> length [''7'', ''abc''] \<and>
   streams \<lparr>streams = [1 \<mapsto> ''xy'']\<rparr> (atoi ([''7'', ''abc''] ! 0)) = None \<and>
   fst (guacenc_handle_blob \<lparr>streams = [1 \<mapsto> ''xy'']\<rparr> [''7'', ''abc'']) = 0"
  using guacenc_handle_blob_unopened [of "[''7'', ''abc'']" "\<lparr>streams = [1 \<mapsto> ''xy'']\<rparr>"]
  by (simp add: atoi_examples)

text \<open>
  C3, as stated, fails: no stream is open, and the blob instruction for index 7 is
  answered with zero.
\<close>

theorem guacenc_handle_blob_reference_counterexample:
  "streams \<lparr>streams = Map.empty\<rparr> (atoi ''7'') = None \<and>
   \<not> fst (guacenc_handle_blob \<lparr>streams = Map.empty\<rparr> [''7'', ''abc'']) \<noteq> 0"
  by (simp add: guacenc_handle_blob_def)

text \<open>
  C4, as amended. The handler reads its arguments as C strings: what it returns and logs
  depends on the first two arguments only through their bytes before the first NUL, and
  the data length it reports is that of \<open>strlen\<close>, the number of bytes of \<open>argv[1]\<close>
  before its first NUL, as \<open>%i\<close> prints it; that number is at most the declared
  length, and it is printed as it is when the declared length is within \<open>int\<close>.
\<close>

theorem guacenc_handle_blob_c_strings:
  assumes "2 \<le> length argv"
  shows "guacenc_handle_blob st argv =
           guacenc_handle_blob st
             [takeWhile (\<lambda>c. c \<noteq> NUL) (argv ! 0), takeWhile (\<lambda>c. c \<noteq> NUL) (argv ! 1)] \<and>
         map snd (fst (snd (guacenc_handle_blob st argv))) =
           [''blob: stream='' @ show_int (atoi (argv ! 0)) @ '' data=['' @
            show_int (wrap32 (int (length (takeWhile (\<lambda>c. c \<noteq> NUL) (argv ! 1))))) @
            '' chars]''] \<and>
         length (takeWhile (\<lambda>c. c \<noteq> NUL) (argv ! 1)) \<le> length (argv ! 1) \<and>
         (int (length (argv ! 1)) \<le> INT_MAX \<longrightarrow>
            wrap32 (int (length (takeWhile (\<lambda>c. c \<noteq> NUL) (argv ! 1)))) =
              int (length (takeWhile (\<lambda>c. c \<noteq> NUL) (argv ! 1))))"
proof (intro conjI impI)
  show "guacenc_handle_blob st argv =
           guacenc_handle_blob st
             [takeWhile (\<lambda>c. c \<noteq> NUL) (argv ! 0), takeWhile (\<lambda>c. c \<noteq> NUL) (argv ! 1)]"
    using assms by (simp add: guacenc_handle_blob_def atoi_up_to_NUL strlen_up_to_NUL)
  show "map snd (fst (snd (guacenc_handle_blob st argv))) =
           [''blob: stream='' @ show_int (atoi (argv ! 0)) @ '' data=['' @
            show_int (wrap32 (int (length (takeWhile (\<lambda>c. c \<noteq> NUL) (argv ! 1))))) @
            '' chars]'']"
    using assms by (simp add: guacenc_handle_blob_def strlen_def)
  show le: "length (takeWhile (\<lambda>c. c \<noteq> NUL) (argv ! 1)) \<le> length (argv ! 1)"
    by (rule length_takeWhile_le)
  assume "int (length (argv ! 1)) \<le> INT_MAX"
  with le show "wrap32 (int (length (takeWhile (\<lambda>c. c \<noteq> NUL) (argv ! 1)))) =
              int (length (takeWhile (\<lambda>c. c \<noteq> NUL) (argv ! 1)))"
    by (intro wrap32_in_range) simp_all
qed

theorem guacenc_handle_blob_c_strings_witness:
  "2 \<le> length [''0'', [CHR ''a'', NUL, CHR ''b'']] \<and>
   int (length ([''0'', [CHR ''a'', NUL, CHR ''b'']] ! 1)) \<le> INT_MAX \<and>
   guacenc_handle_blob \<lparr>streams = Map.empty\<rparr> [''0'', [CHR ''a'', NUL, CHR ''b'']] =
     guacenc_handle_blob \<lparr>streams = Map.empty\<rparr> [''0'', ''a''] \<and>
   wrap32 (int (length (takeWhile (\<lambda>c. c \<noteq> NUL) [CHR ''a'', NUL, CHR ''b'']))) = 1"
  using guacenc_handle_blob_c_strings
          [of "[''0'', [CHR ''a'', NUL, CHR ''b'']]" "\<lparr>streams = Map.empty\<rparr>"]
  by (simp add: NUL_def INT_MAX_def)

text \<open>
  C4, as stated, fails: the data arguments \<open>a NUL b\<close> and \<open>a NUL c\<close> differ after the
  embedded NUL only and are handled alike, and the length reported for the first is 1,
  not its declared length 3.
\<close>

theorem guacenc_handle_blob_binary_counterexample:
  "[CHR ''a'', NUL, CHR ''b''] \<noteq> [CHR ''a'', NUL, CHR ''c''] \<and>
   guacenc_handle_blob \<lparr>streams = Map.empty\<rparr> [''0'', [CHR ''a'', NUL, CHR ''b'']] =
     guacenc_handle_blob \<lparr>streams = Map.empty\<rparr> [''0'', [CHR ''a'', NUL, CHR ''c'']] \<and>
   guacenc_handle_blob \<lparr>streams = Map.empty\<rparr> [''0'', [CHR ''a'', NUL, CHR ''b'']] =
     (0, [(GUAC_LOG_DEBUG, ''blob: stream=0 data=[1 chars]'')], \<lparr>streams = Map.empty\<rparr>) \<and>
   length [CHR ''a'', NUL, CHR ''b''] = 3"
proof -
  have c: "show_int 0 = ''0''" "show_int 1 = ''1''"
    by code_simp+
  show ?thesis
    by (simp add: guacenc_handle_blob_def strlen_def NUL_def atoi_examples wrap32_def c)
qed

section \<open>Properties of the Frame Clock\<close>

lemma handle_sync_Some:
  "last_timestamp fc = Some L \<Longrightarrow>
   handle_sync fc T = (if T < L then Inl Ordering_error else Inr (fc\<lparr>last_timestamp := Some T\<rparr>))"
  by (simp add: handle_sync_def)

lemma replay_sync_from:
  "last_timestamp fc = Some L \<Longrightarrow>
   (fst (replay_sync fc ts) = None) = sorted (L # ts) \<and>
   sorted (L # take (snd (replay_sync fc ts)) ts) \<and>
   (fst (replay_sync fc ts) = None \<longrightarrow> snd (replay_sync fc ts) = length ts)"
proof (induction ts arbitrary: fc L)
  case Nil
  then show ?case by simp
next
  case (Cons T ts)
  show ?case
  proof (cases "T < L")
    case True
    with Cons.prems show ?thesis
      by (simp add: handle_sync_Some sorted1 sorted2 del: sorted_wrt.simps(2))
  next
    case False
    let ?fc = "fc\<lparr>last_timestamp := Some T\<rparr>"
    have "last_timestamp ?fc = Some T" by simp
    from Cons.IH [OF this] False Cons.prems show ?thesis
      by (auto simp: handle_sync_Some sorted1 sorted2 split: prod.splits
            simp del: sorted_wrt.simps(2))
  qed
qed

lemma replay_sync_init:
  "(fst (replay_sync frame_clock_init ts) = None) = sorted ts \<and>
   sorted (take (snd (replay_sync frame_clock_init ts)) ts) \<and>
   (fst (replay_sync frame_clock_init ts) = None \<longrightarrow>
      snd (replay_sync frame_clock_init ts) = length ts)"
proof (cases ts)
  case Nil
  then show ?thesis by simp
next
  case (Cons T ts')
  let ?fc = "frame_clock_init\<lparr>last_timestamp := Some T\<rparr>"
  have "last_timestamp ?fc = Some T" by simp
  from replay_sync_from [OF this, of ts'] Cons show ?thesis
    by (auto simp: handle_sync_def frame_clock_init_def split: prod.splits)
qed

text \<open>
  C5. In a replay of synchronization instructions, a timestamp lower than one observed
  before it ends the replay with the ordering error, and no instruction from that one on
  is processed; a replay of non-decreasing timestamps processes them all without error.
\<close>

theorem sync_monotonicity:
  "(\<forall>i j. i < j \<and> j < length ts \<and> ts ! j < ts ! i \<longrightarrow>
      fst (replay_sync frame_clock_init ts) = Some Ordering_error \<and>
      snd (replay_sync frame_clock_init ts) \<le> j) \<and>
   (sorted ts \<longrightarrow> replay_sync frame_clock_init ts = (None, length ts))"
proof (intro conjI allI impI)
  fix i j
  assume a: "i < j \<and> j < length ts \<and> ts ! j < ts ! i"
  let ?n = "snd (replay_sync frame_clock_init ts)"
  have "\<not> sorted ts"
  proof
    assume "sorted ts"
    with a have "ts ! i \<le> ts ! j" by (simp add: sorted_iff_nth_mono_less)
    with a show False by simp
  qed
  with replay_sync_init [of ts] have "fst (replay_sync frame_clock_init ts) \<noteq> None"
    by simp
  then show "fst (replay_sync frame_clock_init ts) = Some Ordering_error"
    by (cases "fst (replay_sync frame_clock_init ts)") (auto intro: replay_error.exhaust)
  show "?n \<le> j"
  proof (rule ccontr)
    assume "\<not> ?n \<le> j"
    with a have ij: "i < j" "j < length (take ?n ts)" by simp_all
    from replay_sync_init [of ts] have "sorted (take ?n ts)" by simp
    with ij have "take ?n ts ! i \<le> take ?n ts ! j"
      by (simp add: sorted_iff_nth_mono_less)
    with ij a show False by simp
  qed
next
  assume "sorted ts"
  with replay_sync_init [of ts] show "replay_sync frame_clock_init ts = (None, length ts)"
    by (simp add: prod_eq_iff)
qed

theorem sync_monotonicity_witness:
  "(1::nat) < 2 \<and> 2 < length [10, 20, 15, 30 :: int] \<and>
   [10, 20, 15, 30 :: int] ! 2 < [10, 20, 15, 30] ! 1 \<and>
   fst (replay_sync frame_clock_init [10, 20, 15, 30]) = Some Ordering_error \<and>
   snd (replay_sync frame_clock_init [10, 20, 15, 30]) \<le> 2 \<and>
   sorted [10, 20, 20, 30 :: int] \<and>
   replay_sync frame_clock_init [10, 20, 20, 30] = (None, 4)"
proof -
  have "(1::nat) < 2 \<and> 2 < length [10, 20, 15, 30 :: int] \<and>
        [10, 20, 15, 30 :: int] ! 2 < [10, 20, 15, 30] ! 1"
    by simp
  with sync_monotonicity [of "[10, 20, 15, 30]"]
  have 1: "fst (replay_sync frame_clock_init [10, 20, 15, 30]) = Some Ordering_error \<and>
   snd (replay_sync frame_clock_init [10, 20, 15, 30]) \<le> 2"
    by blast
  have "sorted [10, 20, 20, 30 :: int]" by simp
  with sync_monotonicity [of "[10, 20, 20, 30]"]
  have 2: "replay_sync frame_clock_init [10, 20, 20, 30] = (None, 4)" by simp
  from 1 2 show ?thesis by simp
qed

section \<open>Properties of the result of the encode operation\<close>

text \<open>
  A replay from any state of the Frame Clock ends successfully exactly when, before the
  first disconnect, no step fails and the timestamps, the last observed one first, do not
  decrease.
\<close>

lemma replay_steps_None:
  "(replay_steps fc steps = None) =
     ((\<forall>s \<in> set (before_disconnect steps). step_ok s) \<and>
      sorted ((case last_timestamp fc of None \<Rightarrow> [] | Some L \<Rightarrow> [L]) @
              sync_timestamps (before_disconnect steps)))"
proof (induction fc steps rule: replay_steps.induct)
  case (4 fc T written steps)
  show ?case
  proof (cases "handle_sync fc T")
    case (Inl e)
    then show ?thesis
      by (auto simp: before_disconnect_def handle_sync_def sorted2 sorted1
               split: option.splits if_splits simp del: sorted_wrt.simps(2))
  next
    case (Inr fc')
    then have fc': "fc' = fc\<lparr>last_timestamp := Some T\<rparr>"
      by (auto simp: handle_sync_def split: option.splits if_splits)
    from Inr have le: "sorted ((case last_timestamp fc of None \<Rightarrow> [] | Some L \<Rightarrow> [L]) @ [T])"
      by (auto simp: handle_sync_def split: option.splits if_splits)
    show ?thesis
    proof (cases written)
      case True
      with 4 [OF Inr True] Inr le show ?thesis
        by (auto simp: before_disconnect_def fc' sorted2 sorted1
                 split: option.splits simp del: sorted_wrt.simps(2))
    next
      case False
      with Inr show ?thesis by (simp add: before_disconnect_def)
    qed
  qed
qed (simp_all add: before_disconnect_def split: option.splits)

text \<open>
  C6. \<open>guacenc_encode\<close> returns zero exactly when the replay completed successfully:
  the encoder was initialised and, up to the disconnect or the end of the dump, no fatal
  error occurred, every due frame was written and no timestamp was lower than the one
  before it. It returns a non-zero value whenever the encoder could not be initialised
  or one of these errors ended the replay.
\<close>

theorem guacenc_encode_zero_iff_success:
  "(guacenc_encode encoder_initialised steps = 0) =
     (encoder_initialised \<and>
      (\<forall>s \<in> set (before_disconnect steps). step_ok s) \<and>
      sorted (sync_timestamps (before_disconnect steps))) \<and>
   (guacenc_encode encoder_initialised steps \<noteq> 0) =
     (\<not> encoder_initialised \<or>
      (\<exists>s \<in> set (before_disconnect steps). \<not> step_ok s) \<or>
      \<not> sorted (sync_timestamps (before_disconnect steps))) \<and>
   (\<not> encoder_initialised \<longrightarrow>
      guacenc_encode_result encoder_initialised steps = Some Encoder_init_error)"
proof -
  have r: "(replay_steps frame_clock_init steps = None) =
     ((\<forall>s \<in> set (before_disconnect steps). step_ok s) \<and>
      sorted (sync_timestamps (before_disconnect steps)))"
    by (simp add: replay_steps_None frame_clock_init_def)
  have z: "(guacenc_encode encoder_initialised steps = 0) =
     (encoder_initialised \<and> replay_steps frame_clock_init steps = None)"
    by (simp add: guacenc_encode_def guacenc_encode_result_def split: option.splits)
  show ?thesis
    unfolding z r by (auto simp: guacenc_encode_result_def)
qed

theorem guacenc_encode_zero_iff_success_witness:
  "guacenc_encode True
     [Step_done, Step_sync 0 True, Step_skipped, Step_sync 1000 True, Step_disconnect,
      Step_failed Framing_error] = 0 \<and>
   guacenc_encode True [Step_done, Step_failed Framing_error, Step_disconnect] \<noteq> 0 \<and>
   guacenc_encode True [Step_sync 1000 True, Step_sync 0 True] \<noteq> 0 \<and>
   guacenc_encode True [Step_sync 1000 False] \<noteq> 0 \<and>
   guacenc_encode False [Step_done] \<noteq> 0 \<and>
   guacenc_encode_result False [Step_done] = Some Encoder_init_error"
  using guacenc_encode_zero_iff_success
          [of True "[Step_done, Step_sync 0 True, Step_skipped, Step_sync 1000 True,
                     Step_disconnect, Step_failed Framing_error]"]
        guacenc_encode_zero_iff_success
          [of True "[Step_done, Step_failed Framing_error, Step_disconnect]"]
        guacenc_encode_zero_iff_success [of True "[Step_sync 1000 True, Step_sync 0 True]"]
        guacenc_encode_zero_iff_success [of True "[Step_sync 1000 False]"]
        guacenc_encode_zero_iff_success [of False "[Step_done]"]
  by (simp add: before_disconnect_def)


section \<open>Properties of the RDP display update module\<close>

lemma c_div_nonneg: "0 \<le> a \<Longrightarrow> 0 < b \<Longrightarrow> c_div a b = Inr (a div b)"
  by (simp add: c_div_def INT_MIN_def sgn_if)

lemma c_rem_nonneg: "0 \<le> a \<Longrightarrow> c_rem a 2 = a mod 2"
  by (simp add: c_rem_def sgn_if minus_mult_div_eq_mod)

lemma scaled_up:
  fixes a b M :: int
  assumes "0 < a" "a \<le> M" "0 \<le> b"
  shows "b \<le> b * M div a"
proof -
  from assms have "b * a \<le> b * M" by (simp add: mult_left_mono)
  with assms(1) have "b * a div a \<le> b * M div a" by (intro zdiv_mono1)
  with assms(1) show ?thesis by simp
qed

lemma scaled_down:
  fixes a b M :: int
  assumes "0 < a" "M \<le> a" "0 \<le> b"
  shows "b * M div a \<le> b"
proof -
  from assms have "b * M \<le> b * a" by (simp add: mult_left_mono)
  with assms(1) have "b * M div a \<le> b * a div a" by (intro zdiv_mono1)
  with assms(1) show ?thesis by simp
qed

lemma guac_rdp_disp_fit_no_overflow:
  assumes h: "1 \<le> MIN_SIZE h" "MIN_SIZE h \<le> MAX_SIZE h"
      and ab: "1 \<le> a" "1 \<le> b"
      and ov: "b * MAX_SIZE h \<le> INT_MAX"
  shows "\<exists>a' b'. guac_rdp_disp_fit h a b = Inr (a', b') \<and>
           MIN_SIZE h \<le> a' \<and> a' \<le> MAX_SIZE h \<and> 1 \<le> b' \<and>
           (MIN_SIZE h \<le> b \<longrightarrow> MIN_SIZE h \<le> b') \<and>
           (b \<le> MAX_SIZE h \<longrightarrow> b' \<le> MAX_SIZE h)"
proof -
  have min_prod: "0 \<le> b * MIN_SIZE h" "b * MIN_SIZE h \<le> INT_MAX"
  proof -
    show "0 \<le> b * MIN_SIZE h" using h ab by simp
    have "b * MIN_SIZE h \<le> b * MAX_SIZE h" using h ab by (simp add: mult_left_mono)
    with ov show "b * MIN_SIZE h \<le> INT_MAX" by simp
  qed
  have max_prod: "0 \<le> b * MAX_SIZE h" using h ab by simp
  consider (small) "a < MIN_SIZE h" | (large) "MAX_SIZE h < a" | (fits) "MIN_SIZE h \<le> a" "a \<le> MAX_SIZE h"
    by linarith
  then show ?thesis
  proof cases
    case small
    have q: "c_div (c_mul b (MIN_SIZE h)) a = Inr (b * MIN_SIZE h div a)"
      using min_prod ab by (simp add: c_mul_def wrap32_in_range c_div_nonneg)
    have "b \<le> b * MIN_SIZE h div a"
      using ab small by (intro scaled_up) simp_all
    with small q h ab show ?thesis
      by (simp add: guac_rdp_disp_fit_def)
  next
    case large
    have q: "c_div (c_mul b (MAX_SIZE h)) a = Inr (b * MAX_SIZE h div a)"
      using max_prod ov ab by (simp add: c_mul_def wrap32_in_range c_div_nonneg)
    have "b * MAX_SIZE h div a \<le> b"
      using ab large by (intro scaled_down) simp_all
    with large q h ab show ?thesis
      by (simp add: guac_rdp_disp_fit_def)
  next
    case fits
    with ab show ?thesis
      by (simp add: guac_rdp_disp_fit_def)
  qed
qed

lemma requested_update_size:
  "requested_width (fst (guac_rdp_disp_update_size h now remote d)) = requested_width d \<and>
   requested_height (fst (guac_rdp_disp_update_size h now remote d)) = requested_height d"
  by (simp add: guac_rdp_disp_update_size_def Let_def)

text \<open>
  Where no product leaves the range of \<open>int\<close>, \<open>guac_rdp_disp_set_size\<close> returns
  and stores a width and a height within the bounds, the width even.
\<close>

lemma guac_rdp_disp_set_size_no_overflow:
  assumes h: "1 \<le> MIN_SIZE h" "MIN_SIZE h \<le> MAX_SIZE h" "even (MIN_SIZE h)"
             "MAX_SIZE h * MAX_SIZE h \<le> INT_MAX"
      and wh: "1 \<le> width" "1 \<le> height"
      and ov: "height * MAX_SIZE h \<le> INT_MAX"
  shows "\<exists>d' sent. guac_rdp_disp_set_size h now remote d width height = Inr (d', sent) \<and>
           MIN_SIZE h \<le> requested_width d' \<and> requested_width d' \<le> MAX_SIZE h \<and>
           MIN_SIZE h \<le> requested_height d' \<and> requested_height d' \<le> MAX_SIZE h \<and>
           even (requested_width d')"
proof -
  from guac_rdp_disp_fit_no_overflow [OF h(1,2) wh ov]
  obtain w1 h1 where 1: "guac_rdp_disp_fit h width height = Inr (w1, h1)"
    "MIN_SIZE h \<le> w1" "w1 \<le> MAX_SIZE h" "1 \<le> h1"
    by blast
  have "w1 * MAX_SIZE h \<le> MAX_SIZE h * MAX_SIZE h"
    using 1 h by (simp add: mult_right_mono)
  with h(4) have ov1: "w1 * MAX_SIZE h \<le> INT_MAX" by simp
  have "1 \<le> w1" using 1 h by simp
  from guac_rdp_disp_fit_no_overflow [OF h(1,2) \<open>1 \<le> h1\<close> \<open>1 \<le> w1\<close> ov1] 1
  obtain h2 w2 where 2: "guac_rdp_disp_fit h h1 w1 = Inr (h2, w2)"
    "MIN_SIZE h \<le> h2" "h2 \<le> MAX_SIZE h" "MIN_SIZE h \<le> w2" "w2 \<le> MAX_SIZE h"
    by blast
  have nn: "0 \<le> w2" using 2 h by simp
  define w3 where "w3 = (if w2 mod 2 = 1 then w2 - 1 else w2)"
  define d0 where "d0 = d\<lparr>requested_width := w3, requested_height := h2\<rparr>"
  have run: "guac_rdp_disp_set_size h now remote d width height =
               Inr (guac_rdp_disp_update_size h now remote d0)"
    by (simp add: guac_rdp_disp_set_size_def 1(1) 2(1) c_rem_nonneg [OF nn] w3_def d0_def)
  have w3: "MIN_SIZE h \<le> w3 \<and> w3 \<le> MAX_SIZE h \<and> even w3"
  proof (cases "w2 mod 2 = 1")
    case True
    then have "odd w2" by presburger
    with h(3) have "w2 \<noteq> MIN_SIZE h" by auto
    with 2 \<open>odd w2\<close> True show ?thesis by (simp add: w3_def)
  next
    case False
    then have "even w2" by presburger
    with 2 False show ?thesis by (simp add: w3_def)
  qed
  obtain d' sent where u: "guac_rdp_disp_update_size h now remote d0 = (d', sent)"
    by (cases "guac_rdp_disp_update_size h now remote d0")
  with requested_update_size [of h now remote d0]
  have "requested_width d' = w3" "requested_height d' = h2"
    by (simp_all add: d0_def)
  with run u w3 2 show ?thesis by simp
qed

lemma round_up_multiple:
  fixes n M :: int
  assumes "0 < M"
  shows "n \<le> (n + M - 1) div M * M \<and> (n + M - 1) div M * M < n + M"
proof -
  have e: "(n + M - 1) div M * M = (n + M - 1) - (n + M - 1) mod M"
    by (simp add: minus_mod_eq_div_mult)
  have "0 \<le> (n + M - 1) mod M" "(n + M - 1) mod M < M"
    using assms by simp_all
  with e show ?thesis by linarith
qed

lemma guac_rdp_disp_set_size_no_overflow_example:
  "\<exists>d' sent.
     guac_rdp_disp_set_size \<lparr>MIN_SIZE = 200, MAX_SIZE = 8192, UPDATE_INTERVAL = 500\<rparr>
       1000 (1024, 768) guac_rdp_disp_alloc 100 20000 = Inr (d', sent) \<and>
     200 \<le> requested_width d' \<and> requested_width d' \<le> 8192 \<and>
     200 \<le> requested_height d' \<and> requested_height d' \<le> 8192 \<and>
     even (requested_width d')"
  using guac_rdp_disp_set_size_no_overflow
          [of "\<lparr>MIN_SIZE = 200, MAX_SIZE = 8192, UPDATE_INTERVAL = 500\<rparr>" 100 20000
              1000 "(1024, 768)" guac_rdp_disp_alloc]
  by (simp add: INT_MAX_def)

text \<open>
  Whatever the bounds, as long as \<open>MIN_SIZE\<close> is at least 2 and its square is well
  inside the range of \<open>int\<close>: for width 1 and the least height whose product with
  \<open>MIN_SIZE\<close> reaches \<open>2^31\<close>, the product wraps to a negative number and the
  width stored is 0.
\<close>

lemma guac_rdp_disp_set_size_wraps_any_bounds:
  assumes h: "2 \<le> MIN_SIZE h" "MIN_SIZE h \<le> MAX_SIZE h"
             "MIN_SIZE h * MIN_SIZE h + MIN_SIZE h \<le> 2 ^ 31"
      and height: "height = (2 ^ 31 + MIN_SIZE h - 1) div MIN_SIZE h"
  shows "1 \<le> height \<and> height \<le> INT_MAX \<and>
         (\<exists>d' sent. guac_rdp_disp_set_size h now remote d 1 height = Inr (d', sent) \<and>
            requested_width d' = 0 \<and> requested_height d' = MIN_SIZE h)"
proof -
  let ?M = "MIN_SIZE h"
  define a where "a = height * ?M - 2 ^ 32"
  have M: "0 < ?M" using h by simp
  from round_up_multiple [OF M, of "2 ^ 31"] height
  have P: "2 ^ 31 \<le> height * ?M" "height * ?M < 2 ^ 31 + ?M" by simp_all
  have sq: "0 \<le> ?M * ?M" by simp
  have hpos: "1 \<le> height"
  proof (rule ccontr)
    assume "\<not> 1 \<le> height"
    then have "height \<le> 0" by simp
    with M have "height * ?M \<le> 0" by (simp add: mult_nonpos_nonneg)
    with P show False by simp
  qed
  have Mb: "?M \<le> 2 ^ 31" using h(3) sq by linarith
  have hmax: "height \<le> INT_MAX"
  proof -
    have "height * 2 \<le> height * ?M" using hpos h by (intro mult_left_mono) simp_all
    with P Mb show ?thesis unfolding INT_MAX_def by linarith
  qed
  have wrap: "c_mul height ?M = a"
  proof -
    let ?k = "height * ?M + 2 ^ 31"
    have "?k mod 2 ^ 32 = (?k - 2 ^ 32) mod 2 ^ 32"
      using P by (intro mod_pos_geq) simp_all
    also have "\<dots> = ?k - 2 ^ 32"
      using P Mb by (intro mod_pos_pos_trivial) simp_all
    finally show ?thesis by (simp add: c_mul_def wrap32_def a_def)
  qed
  have a: "a < 0" "?M * ?M < - a"
    using P Mb h(3) unfolding a_def by simp_all
  have fit1: "guac_rdp_disp_fit h 1 height = Inr (?M, a)"
    using h a(1) by (simp add: guac_rdp_disp_fit_def wrap c_div_def sgn_if)
  have sqmax: "?M * ?M \<le> INT_MAX"
    using h(1,3) unfolding INT_MAX_def by linarith
  have mul2: "c_mul ?M ?M = ?M * ?M"
    using sq sqmax by (simp add: c_mul_def wrap32_def INT_MAX_def)
  have q: "\<bar>?M * ?M\<bar> div \<bar>a\<bar> = 0"
    using a sq by (simp add: div_pos_pos_trivial)
  have "INT_MIN = - 2147483648" by (simp add: INT_MIN_def)
  with sq have sqne: "?M * ?M \<noteq> INT_MIN" by linarith
  have fit2: "guac_rdp_disp_fit h a ?M = Inr (?M, 0)"
    using h a(1) sqne q by (simp add: guac_rdp_disp_fit_def mul2 c_div_def)
  have run: "guac_rdp_disp_set_size h now remote d 1 height =
               Inr (guac_rdp_disp_update_size h now remote
                      (d\<lparr>requested_width := 0, requested_height := ?M\<rparr>))"
    by (simp add: guac_rdp_disp_set_size_def fit1 fit2 c_rem_def)
  obtain d' sent where u: "guac_rdp_disp_update_size h now remote
                      (d\<lparr>requested_width := 0, requested_height := ?M\<rparr>) = (d', sent)"
    by (cases "guac_rdp_disp_update_size h now remote
                      (d\<lparr>requested_width := 0, requested_height := ?M\<rparr>)")
  with requested_update_size
         [of h now remote "d\<lparr>requested_width := 0, requested_height := ?M\<rparr>"]
  have "requested_width d' = 0" "requested_height d' = ?M" by simp_all
  with run u hpos hmax show ?thesis by simp
qed


text \<open>
  C7 fails on the code where a product leaves the range of \<open>int\<close>. With the bounds
  200 and 8192, width 1 and height 536870912: the product \<open>536870912 * 200\<close> is
  \<open>25 * 2^32\<close> and wraps to 0, the height becomes 0, and the second call of
  \<open>guac_rdp_disp_fit\<close> divides by it. With height 10737419 the product wraps to a
  negative number, no division traps, and the width stored is 0.
\<close>

theorem guac_rdp_disp_set_size_overflow:
  "guac_rdp_disp_set_size \<lparr>MIN_SIZE = 200, MAX_SIZE = 8192, UPDATE_INTERVAL = 500\<rparr>
     1000 (1024, 768) guac_rdp_disp_alloc 1 536870912 = Inl Division_by_zero \<and>
   guac_rdp_disp_set_size \<lparr>MIN_SIZE = 200, MAX_SIZE = 8192, UPDATE_INTERVAL = 500\<rparr>
     1000 (1024, 768) guac_rdp_disp_alloc 1 10737419 =
     Inr (\<lparr>disp = False, last_request = 0, requested_width = 0, requested_height = 200\<rparr>,
          None)"
  by (simp add: guac_rdp_disp_set_size_def guac_rdp_disp_fit_def c_mul_def c_div_def
        c_rem_def wrap32_def INT_MIN_def guac_rdp_disp_update_size_def guac_rdp_disp_alloc_def)

section \<open>Properties of the terminal typescript\<close>

lemma guac_terminal_typescript_flush_Inr:
  assumes "typescript_inv ts"
  shows "\<exists>ts'. guac_terminal_typescript_flush D now ts = Inr ts' \<and> length_ts ts' = 0 \<and>
           buffer ts' = buffer ts"
  using assms
  by (auto simp: guac_terminal_typescript_flush_def typescript_inv_def Let_def)

lemma typescript_flush_example:
  "guac_terminal_typescript_flush 86400 2234
     \<lparr>buffer = ''abcd'', length_ts = 4, data_fd = ''H'', timing_fd = [], last_flush = 1000\<rparr> =
   Inr \<lparr>buffer = ''abcd'', length_ts = 0, data_fd = ''Habcd'',
        timing_fd = ''1.234000 4'' @ [CHR 0x0A], last_flush = 2234\<rparr>"
proof -
  have w: "wrap32 1234 = 1234" by (simp add: wrap32_def)
  have s1: "show_seconds 1234 = ''1.234000''" by code_simp
  have s2: "show_int 4 = ''4''" by code_simp
  show ?thesis
    by (simp add: guac_terminal_typescript_flush_def w s1 s2 sizeof_buffer_def
          timestamp_line_def)
qed

text \<open>
  C8. The invariant \<open>0 \<le> length \<le> sizeof(buffer)\<close> holds after
  \<open>guac_terminal_typescript_alloc\<close> and is preserved by
  \<open>guac_terminal_typescript_flush\<close>, which returns with \<open>length\<close> 0, and by
  \<open>guac_terminal_typescript_write\<close>, which flushes first exactly when the buffer is
  full and then stores the byte at an index inside the array.
\<close>

theorem typescript_length_invariant:
  assumes "typescript_inv ts" and "buffer ts \<noteq> []"
  shows "(\<exists>ts'. guac_terminal_typescript_flush D now ts = Inr ts' \<and>
            length_ts ts' = 0 \<and> typescript_inv ts' \<and> sizeof_buffer ts' = sizeof_buffer ts) \<and>
         (\<exists>ts' t i. guac_terminal_typescript_write D now ts c = Inr ts' \<and>
            (if length_ts ts = sizeof_buffer ts
             then guac_terminal_typescript_flush D now ts else Inr ts) = Inr t \<and>
            i = length_ts t \<and> 0 \<le> i \<and> i < sizeof_buffer ts \<and>
            buffer ts' = (buffer t)[nat i := c] \<and> length_ts ts' = i + 1 \<and>
            typescript_inv ts' \<and> sizeof_buffer ts' = sizeof_buffer ts) \<and>
         (\<forall>ts0. guac_terminal_typescript_alloc data_opened timing_opened buffer0 HEADER now =
                  Some ts0 \<longrightarrow> typescript_inv ts0)"
proof (intro conjI)
  from guac_terminal_typescript_flush_Inr [OF assms(1), of D now]
  obtain f where f: "guac_terminal_typescript_flush D now ts = Inr f"
    "length_ts f = 0" "buffer f = buffer ts"
    by blast
  from f show "\<exists>ts'. guac_terminal_typescript_flush D now ts = Inr ts' \<and>
            length_ts ts' = 0 \<and> typescript_inv ts' \<and> sizeof_buffer ts' = sizeof_buffer ts"
    by (simp add: typescript_inv_def sizeof_buffer_def)
  show "\<exists>ts' t i. guac_terminal_typescript_write D now ts c = Inr ts' \<and>
            (if length_ts ts = sizeof_buffer ts
             then guac_terminal_typescript_flush D now ts else Inr ts) = Inr t \<and>
            i = length_ts t \<and> 0 \<le> i \<and> i < sizeof_buffer ts \<and>
            buffer ts' = (buffer t)[nat i := c] \<and> length_ts ts' = i + 1 \<and>
            typescript_inv ts' \<and> sizeof_buffer ts' = sizeof_buffer ts"
  proof (cases "length_ts ts = sizeof_buffer ts")
    case True
    from assms(2) have "0 < sizeof_buffer ts" by (simp add: sizeof_buffer_def)
    with True f show ?thesis
      by (simp add: guac_terminal_typescript_write_def typescript_inv_def sizeof_buffer_def
            Suc_le_eq)
  next
    case False
    with assms(1) show ?thesis
      by (simp add: guac_terminal_typescript_write_def typescript_inv_def sizeof_buffer_def)
  qed
  show "\<forall>ts0. guac_terminal_typescript_alloc data_opened timing_opened buffer0 HEADER now =
                  Some ts0 \<longrightarrow> typescript_inv ts0"
    by (auto simp: guac_terminal_typescript_alloc_def typescript_inv_def sizeof_buffer_def
             split: if_splits)
qed

theorem typescript_length_invariant_witness:
  "typescript_inv
     \<lparr>buffer = ''abcd'', length_ts = 4, data_fd = ''H'', timing_fd = [], last_flush = 1000\<rparr> \<and>
   buffer
     \<lparr>buffer = ''abcd'', length_ts = 4, data_fd = ''H'', timing_fd = [], last_flush = 1000\<rparr>
     \<noteq> [] \<and>
   guac_terminal_typescript_write 86400 2234
     \<lparr>buffer = ''abcd'', length_ts = 4, data_fd = ''H'', timing_fd = [], last_flush = 1000\<rparr>
     (CHR ''z'') =
     Inr \<lparr>buffer = ''zbcd'', length_ts = 1, data_fd = ''Habcd'',
          timing_fd = ''1.234000 4'' @ [CHR 0x0A], last_flush = 2234\<rparr> \<and>
   typescript_inv
     \<lparr>buffer = ''zbcd'', length_ts = 1, data_fd = ''Habcd'',
      timing_fd = ''1.234000 4'' @ [CHR 0x0A], last_flush = 2234\<rparr> \<and>
   guac_terminal_typescript_alloc True True ''abcd'' ''H'' 1000 =
     Some \<lparr>buffer = ''abcd'', length_ts = 0, data_fd = ''H'', timing_fd = [],
           last_flush = 1000\<rparr> \<and>
   typescript_inv
     \<lparr>buffer = ''abcd'', length_ts = 0, data_fd = ''H'', timing_fd = [], last_flush = 1000\<rparr>"
proof -
  let ?T = "\<lparr>buffer = ''abcd'', length_ts = 4, data_fd = ''H'', timing_fd = [],
             last_flush = 1000\<rparr>"
  have h1: "typescript_inv ?T" by (simp add: typescript_inv_def sizeof_buffer_def)
  have h2: "buffer ?T \<noteq> []" by simp
  have e: "guac_terminal_typescript_write 86400 2234 ?T (CHR ''z'') =
     Inr \<lparr>buffer = ''zbcd'', length_ts = 1, data_fd = ''Habcd'',
          timing_fd = ''1.234000 4'' @ [CHR 0x0A], last_flush = 2234\<rparr>"
    by (simp add: guac_terminal_typescript_write_def typescript_flush_example
          sizeof_buffer_def)
  have al: "guac_terminal_typescript_alloc True True ''abcd'' ''H'' 1000 =
     Some \<lparr>buffer = ''abcd'', length_ts = 0, data_fd = ''H'', timing_fd = [],
           last_flush = 1000\<rparr>"
    by (simp add: guac_terminal_typescript_alloc_def)
  from typescript_length_invariant
         [OF h1 h2, of 86400 1000 "CHR ''z''" True True "''abcd''" "''H''"] al
  have i0: "typescript_inv
     \<lparr>buffer = ''abcd'', length_ts = 0, data_fd = ''H'', timing_fd = [], last_flush = 1000\<rparr>"
    by simp
  from typescript_length_invariant [OF h1 h2, of 86400 2234 "CHR ''z''"] e
  have i1: "typescript_inv
     \<lparr>buffer = ''zbcd'', length_ts = 1, data_fd = ''Habcd'',
      timing_fd = ''1.234000 4'' @ [CHR 0x0A], last_flush = 2234\<rparr>"
    by auto
  from h1 h2 e al i0 i1 show ?thesis by simp
qed

text \<open>
  C9. \<open>guac_terminal_typescript_flush\<close> on an empty buffer returns with the typescript
  as it was, both files included; a flush that follows a flush therefore changes nothing,
  whatever the time of the second.
\<close>

theorem guac_terminal_typescript_flush_idempotent:
  "(length_ts ts = 0 \<longrightarrow> guac_terminal_typescript_flush D now ts = Inr ts) \<and>
   (guac_terminal_typescript_flush D now ts = Inr ts' \<longrightarrow>
      guac_terminal_typescript_flush D now' ts' = Inr ts' \<and> length_ts ts' = 0)"
  by (auto simp: guac_terminal_typescript_flush_def Let_def split: if_splits)

theorem guac_terminal_typescript_flush_idempotent_witness:
  "length_ts
     \<lparr>buffer = ''abcd'', length_ts = 0, data_fd = ''H'', timing_fd = [], last_flush = 1000\<rparr>
     = 0 \<and>
   guac_terminal_typescript_flush 86400 2234
     \<lparr>buffer = ''abcd'', length_ts = 0, data_fd = ''H'', timing_fd = [], last_flush = 1000\<rparr> =
     Inr \<lparr>buffer = ''abcd'', length_ts = 0, data_fd = ''H'', timing_fd = [],
          last_flush = 1000\<rparr> \<and>
   guac_terminal_typescript_flush 86400 2234
     \<lparr>buffer = ''abcd'', length_ts = 4, data_fd = ''H'', timing_fd = [], last_flush = 1000\<rparr> =
     Inr \<lparr>buffer = ''abcd'', length_ts = 0, data_fd = ''Habcd'',
          timing_fd = ''1.234000 4'' @ [CHR 0x0A], last_flush = 2234\<rparr> \<and>
   guac_terminal_typescript_flush 86400 9999
     \<lparr>buffer = ''abcd'', length_ts = 0, data_fd = ''Habcd'',
      timing_fd = ''1.234000 4'' @ [CHR 0x0A], last_flush = 2234\<rparr> =
     Inr \<lparr>buffer = ''abcd'', length_ts = 0, data_fd = ''Habcd'',
          timing_fd = ''1.234000 4'' @ [CHR 0x0A], last_flush = 2234\<rparr>"
  using guac_terminal_typescript_flush_idempotent
          [of "\<lparr>buffer = ''abcd'', length_ts = 0, data_fd = ''H'', timing_fd = [],
                last_flush = 1000\<rparr>" 86400 2234]
        guac_terminal_typescript_flush_idempotent
          [of "\<lparr>buffer = ''abcd'', length_ts = 4, data_fd = ''H'', timing_fd = [],
                last_flush = 1000\<rparr>" 86400 2234
              "\<lparr>buffer = ''abcd'', length_ts = 0, data_fd = ''Habcd'',
                timing_fd = ''1.234000 4'' @ [CHR 0x0A], last_flush = 2234\<rparr>" 9999]
        typescript_flush_example
  by simp

end
